theory Spec2Isabelle
  imports Complex_Main
begin

section \<open>Values\<close>

text \<open>
  The embedding follows \<^verbatim>\<open>backend/server.py\<close>. Every exception the source can raise on the
  modelled inputs is a value of \<open>py_error\<close>, and every \<^verbatim>\<open>try/except\<close> is a case distinction
  on it.

  Numbers come in two models. In the first one a Python float is a real number: the values
  are finite and the arithmetic is exact. It covers every function of the claims. The second
  one (section \<open>Float values beyond the finite ones\<close>) adds the infinities and NaN and follows
  \<^verbatim>\<open>calculate_impact\<close> and \<^verbatim>\<open>estimate\<close> over them; on finite values the two models agree.
  The rounding and the overflow of doubles are in neither model.
\<close>

datatype py_error = KeyError | ValueError | TypeError | ZeroDivisionError

text \<open>
  A feed record is what \<^verbatim>\<open>json.loads\<close> returns: a dictionary from keys to JSON values.
\<close>

datatype json =
    JNull
  | JBool bool
  | JNum real
  | JStr string
  | JArr "json list"
  | JObj "(string \<times> json) list"

type_synonym feed_record = "string \<rightharpoonup> json"

text \<open>
  \<^verbatim>\<open>float(x)\<close>: a number converts to itself, a boolean to 0 or 1, a string is parsed, anything
  else raises TypeError. The parser of strings is Python's own and not part of the
  repository, so it is the parameter \<open>pf\<close>; \<open>None\<close> is its ValueError. A JSON number is
  taken to lie within the range of floats (on an integer beyond it \<^verbatim>\<open>float\<close> raises
  OverflowError), and \<open>pf\<close> yields finite numbers: the tokens \<^verbatim>\<open>"inf"\<close> and \<^verbatim>\<open>"nan"\<close>, which
  \<^verbatim>\<open>float\<close> accepts, are not followed through \<^verbatim>\<open>update\<close>.
\<close>

fun float_py :: "(string \<Rightarrow> real option) \<Rightarrow> json \<Rightarrow> py_error + real" where
  "float_py pf (JNum r) = Inr r"
| "float_py pf (JBool b) = Inr (if b then 1 else 0)"
| "float_py pf (JStr s) = (case pf s of None \<Rightarrow> Inl ValueError | Some r \<Rightarrow> Inr r)"
| "float_py pf j = Inl TypeError"

text \<open>
  Iterating a JSON value: an array yields its items, a string its characters (one
  \<open>char\<close> each), an object its keys; the others are not iterable.
\<close>

fun py_iter :: "json \<Rightarrow> py_error + json list" where
  "py_iter (JArr xs) = Inr xs"
| "py_iter (JStr s) = Inr (map (\<lambda>c. JStr [c]) s)"
| "py_iter (JObj kvs) = Inr (map (\<lambda>kv. JStr (fst kv)) kvs)"
| "py_iter j = Inl TypeError"

text \<open>\<^verbatim>\<open>price, size = item\<close>: the item must yield exactly two values.\<close>

definition unpack2 :: "json \<Rightarrow> py_error + (json \<times> json)" where
  "unpack2 item =
     (case py_iter item of
        Inl e \<Rightarrow> Inl e
      | Inr [p, s] \<Rightarrow> Inr (p, s)
      | Inr _ \<Rightarrow> Inl ValueError)"

text \<open>\<^verbatim>\<open>(float(price), float(size))\<close> for one item; the price is converted first.\<close>

definition parse_level :: "(string \<Rightarrow> real option) \<Rightarrow> json \<Rightarrow> py_error + (real \<times> real)" where
  "parse_level pf item =
     (case unpack2 item of
        Inl e \<Rightarrow> Inl e
      | Inr (p, s) \<Rightarrow>
          (case float_py pf p of
             Inl e \<Rightarrow> Inl e
           | Inr price \<Rightarrow>
               (case float_py pf s of
                  Inl e \<Rightarrow> Inl e
                | Inr sz \<Rightarrow> Inr (price, sz))))"

text \<open>The list comprehension over the items, stopping at the first exception.\<close>

fun parse_items :: "(string \<Rightarrow> real option) \<Rightarrow> json list \<Rightarrow> py_error + (real \<times> real) list" where
  "parse_items pf [] = Inr []"
| "parse_items pf (item # items) =
     (case parse_level pf item of
        Inl e \<Rightarrow> Inl e
      | Inr l \<Rightarrow>
          (case parse_items pf items of
             Inl e \<Rightarrow> Inl e
           | Inr ls \<Rightarrow> Inr (l # ls)))"

text \<open>
  \<^verbatim>\<open>[(float(price), float(size)) for price, size in data[key]]\<close>: the key may be missing
  (KeyError) and its value may not be iterable.
\<close>

definition parse_side :: "(string \<Rightarrow> real option) \<Rightarrow> feed_record \<Rightarrow> string \<Rightarrow> py_error + (real \<times> real) list" where
  "parse_side pf data key =
     (case data key of
        None \<Rightarrow> Inl KeyError
      | Some j \<Rightarrow>
          (case py_iter j of
             Inl e \<Rightarrow> Inl e
           | Inr items \<Rightarrow> parse_items pf items))"

section \<open>OrderBook\<close>

text \<open>
  The fields of an \<^verbatim>\<open>OrderBook\<close>. The type \<open>'n\<close> of its numbers is \<open>real\<close> for the books that
  \<^verbatim>\<open>update\<close> builds from finite tokens, and \<open>pyfloat\<close> (below) where infinite and NaN values
  are followed through the slippage model.
\<close>

record 'n order_book =
  exchange :: string
  symbol :: string
  asks :: "('n \<times> 'n) list"
  bids :: "('n \<times> 'n) list"
  timestamp :: json
  mid_price :: 'n
  spread_pct :: 'n
  ask_depth :: 'n
  bid_depth :: 'n
  last_update_time :: 'n

text \<open>\<^verbatim>\<open>OrderBook.__init__\<close>\<close>

definition new_order_book :: "string \<Rightarrow> string \<Rightarrow> real order_book" where
  "new_order_book ex sy =
     \<lparr>exchange = ex, symbol = sy, asks = [], bids = [], timestamp = JStr [],
      mid_price = 0, spread_pct = 0, ask_depth = 0, bid_depth = 0, last_update_time = 0\<rparr>"

text \<open>
  \<^verbatim>\<open>sum(size for _, size in levels[:10])\<close>
\<close>

definition depth10 :: "(real \<times> real) list \<Rightarrow> real" where
  "depth10 levels = sum_list (map snd (take 10 levels))"

text \<open>
  The block \<^verbatim>\<open>if self.asks and self.bids: ...\<close>. The mid price is stored before the
  spread is computed, so a zero mid price raises ZeroDivisionError with the mid price
  already written.
\<close>

definition set_mid_and_spread :: "real order_book \<Rightarrow> py_error option \<times> real order_book" where
  "set_mid_and_spread ob =
     (case (asks ob, bids ob) of
        ((best_ask, _) # _, (best_bid, _) # _) \<Rightarrow>
          (let ob1 = ob\<lparr>mid_price := (best_ask + best_bid) / 2\<rparr>
           in if mid_price ob1 = 0 then (Some ZeroDivisionError, ob1)
              else (None, ob1\<lparr>spread_pct := ((best_ask - best_bid) / mid_price ob1) * 100\<rparr>))
      | _ \<Rightarrow> (None, ob))"

text \<open>
  \<^verbatim>\<open>OrderBook.update\<close>. The object is mutated field by field inside the \<^verbatim>\<open>try\<close>, so the
  state returned with \<open>False\<close> is the state at the statement that raised. \<open>now\<close> is the
  reading of \<^verbatim>\<open>time.time()\<close>. Python's sort is stable, also with \<^verbatim>\<open>reverse=True\<close>, which
  the negated key reproduces.
\<close>

definition update :: "(string \<Rightarrow> real option) \<Rightarrow> real \<Rightarrow> real order_book \<Rightarrow> feed_record \<Rightarrow> bool \<times> real order_book" where
  "update pf now ob data =
     (case data ''timestamp'' of
        None \<Rightarrow> (False, ob)
      | Some ts \<Rightarrow>
          (let ob1 = ob\<lparr>timestamp := ts\<rparr> in
           case parse_side pf data ''asks'' of
             Inl e \<Rightarrow> (False, ob1)
           | Inr new_asks \<Rightarrow>
               (let ob2 = ob1\<lparr>asks := new_asks\<rparr> in
                case parse_side pf data ''bids'' of
                  Inl e \<Rightarrow> (False, ob2)
                | Inr new_bids \<Rightarrow>
                    (let ob3 = ob2\<lparr>bids := new_bids\<rparr>;
                         ob4 = ob3\<lparr>asks := sort_key fst (asks ob3)\<rparr>;
                         ob5 = ob4\<lparr>bids := sort_key (\<lambda>x. - fst x) (bids ob4)\<rparr>
                     in case set_mid_and_spread ob5 of
                          (Some e, ob6) \<Rightarrow> (False, ob6)
                        | (None, ob6) \<Rightarrow>
                            (let ob7 = ob6\<lparr>ask_depth := depth10 (asks ob6)\<rparr>;
                                 ob8 = ob7\<lparr>bid_depth := depth10 (bids ob7)\<rparr>
                             in (True, ob8\<lparr>last_update_time := now\<rparr>))))))"

section \<open>AlmgrenChrissModel\<close>

record ac_params =
  gamma :: real
  eta :: real
  epsilon :: real

definition default_params :: ac_params where
  "default_params = \<lparr>gamma = 0.1, eta = 0.01, epsilon = 0.005\<rparr>"

text \<open>
  The body of the \<^verbatim>\<open>try\<close> in \<^verbatim>\<open>calculate_impact\<close>; \<open>params\<close> is the default dictionary after
  \<^verbatim>\<open>params.update(kwargs)\<close>. The two float divisions raise on a zero divisor;
  \<^verbatim>\<open>max(0.01, quantity)\<close> is never zero. (For a negative radicand numpy returns NaN; the
  default parameters never produce one.)
\<close>

definition impact_body :: "ac_params \<Rightarrow> real \<Rightarrow> real \<Rightarrow> real \<Rightarrow> real \<Rightarrow> py_error + real" where
  "impact_body params sigma quantity price time_horizon =
     (if 2 * eta params = 0 then Inl ZeroDivisionError
      else
        let kappa = sqrt ((gamma params * sigma * sigma) / (2 * eta params));
            tau = time_horizon / max 0.01 quantity
        in if time_horizon = 0 then Inl ZeroDivisionError
           else
             let temporary_impact = epsilon params * quantity / time_horizon;
                 permanent_impact = eta params * quantity * tanh (kappa * tau);
                 total_impact = temporary_impact + permanent_impact
             in Inr (min (max total_impact 0) 0.1))"

definition calculate_impact :: "ac_params \<Rightarrow> real \<Rightarrow> real \<Rightarrow> real \<Rightarrow> real \<Rightarrow> real" where
  "calculate_impact params sigma quantity price time_horizon =
     (case impact_body params sigma quantity price time_horizon of
        Inl e \<Rightarrow> 0.001
      | Inr impact \<Rightarrow> impact)"

section \<open>SlippageModel\<close>

text \<open>
  The \<^verbatim>\<open>for price, size in levels\<close> loop of \<^verbatim>\<open>estimate\<close>, returning
  \<open>(remaining_qty, total_cost)\<close> at its end or at the \<^verbatim>\<open>break\<close>. The division by the level's
  value raises when that value is zero.
\<close>

fun walk_levels :: "(real \<times> real) list \<Rightarrow> real \<Rightarrow> real \<Rightarrow> py_error + (real \<times> real)" where
  "walk_levels [] remaining_qty total_cost = Inr (remaining_qty, total_cost)"
| "walk_levels ((price, sz) # levels) remaining_qty total_cost =
     (let level_value_usd = price * sz in
      if remaining_qty \<le> level_value_usd then
        (if level_value_usd = 0 then Inl ZeroDivisionError
         else
           let proportion = remaining_qty / level_value_usd
           in Inr (0, total_cost + price * proportion * remaining_qty))
      else walk_levels levels (remaining_qty - level_value_usd) (total_cost + price * sz))"

text \<open>
  Lines 257 to 270 of \<^verbatim>\<open>estimate\<close>: the unfilled remainder is priced at the last level plus
  1%, and the effective price is compared with the mid price.
\<close>

definition raw_slippage :: "real order_book \<Rightarrow> real \<Rightarrow> bool \<Rightarrow> (real \<times> real) list \<Rightarrow> real \<Rightarrow> real \<Rightarrow> real" where
  "raw_slippage ob quantity is_buy levels remaining_qty total_cost =
     (let total_cost' =
            (if remaining_qty > 0 \<and> levels \<noteq> []
             then total_cost + fst (last levels) * remaining_qty * 1.01
             else total_cost);
          effective_price = (if quantity > 0 then total_cost' / quantity else 0)
      in if mid_price ob > 0
         then (if is_buy then effective_price / mid_price ob - 1
               else 1 - effective_price / mid_price ob)
         else 0)"

text \<open>
  The body of the \<^verbatim>\<open>try\<close> in \<^verbatim>\<open>estimate\<close>. \<^verbatim>\<open>1 / (depth + 1)\<close> raises when the depth is -1.
\<close>

definition estimate_body :: "real order_book \<Rightarrow> real \<Rightarrow> bool \<Rightarrow> py_error + real" where
  "estimate_body ob quantity is_buy =
     (let levels = (if is_buy then asks ob else bids ob) in
      if levels = [] then Inr 0
      else
        case walk_levels levels quantity 0 of
          Inl e \<Rightarrow> Inl e
        | Inr (remaining_qty, total_cost) \<Rightarrow>
            (let slippage = raw_slippage ob quantity is_buy levels remaining_qty total_cost;
                 spread_factor = spread_pct ob * 0.1;
                 depth = (if is_buy then ask_depth ob else bid_depth ob)
             in if depth + 1 = 0 then Inl ZeroDivisionError
                else
                  let depth_factor = (1 / (depth + 1)) * 0.05;
                      adjusted_slippage = slippage + spread_factor + depth_factor
                  in Inr (max (min adjusted_slippage 0.05) 0)))"

definition estimate :: "real order_book \<Rightarrow> real \<Rightarrow> bool \<Rightarrow> real" where
  "estimate ob quantity is_buy =
     (case estimate_body ob quantity is_buy of
        Inl e \<Rightarrow> 0.001
      | Inr slippage \<Rightarrow> slippage)"

section \<open>MakerTakerModel\<close>

text \<open>
  \<^verbatim>\<open>min(abs(np.log(depth_ratio)) / 3, 1)\<close>. At ratio 0 numpy returns minus infinity and the
  minimum is 1. At a negative ratio (a negative depth, from negative sizes) numpy returns
  NaN, which a real number cannot hold: the value 1 of the definition there is a placeholder,
  and the theorems below hold whatever \<^verbatim>\<open>predict\<close> returns.
\<close>

definition imbalance :: "real \<Rightarrow> real" where
  "imbalance depth_ratio =
     (if depth_ratio > 0 then min (\<bar>ln depth_ratio\<bar> / 3) 1 else 1)"

text \<open>
  \<^verbatim>\<open>predict\<close>. Its divisors are at least 0.001 and 0.00001 and the numpy functions do not
  raise, so the fallback 0.2 of its \<^verbatim>\<open>except\<close> is never taken on real inputs.
\<close>

definition predict :: "real order_book \<Rightarrow> real \<Rightarrow> real" where
  "predict ob quantity =
     (let total_depth = ask_depth ob + bid_depth ob;
          relative_size = min (quantity / max total_depth 0.001) 1;
          spread_feature = min (spread_pct ob / 0.1) 1;
          depth_ratio = ask_depth ob / max (bid_depth ob) 0.00001;
          imbalance_feature = imbalance depth_ratio;
          logit = 0.2 + (- 2.5) * relative_size + 1.5 * spread_feature
                    + (- 1.0) * imbalance_feature;
          maker_proportion = 1 / (1 + exp (- logit))
      in max (min maker_proportion 1) 0)"

section \<open>FeeCalculator\<close>

record fee_rates =
  maker :: real
  taker :: real

definition fee_tiers :: "(string \<times> fee_rates) list" where
  "fee_tiers =
     [(''VIP0'', \<lparr>maker = 0.0008, taker = 0.0010\<rparr>),
      (''VIP1'', \<lparr>maker = 0.0006, taker = 0.0008\<rparr>),
      (''VIP2'', \<lparr>maker = 0.0004, taker = 0.0006\<rparr>),
      (''VIP3'', \<lparr>maker = 0.0002, taker = 0.0004\<rparr>),
      (''VIP4'', \<lparr>maker = 0.0000, taker = 0.0002\<rparr>),
      (''VIP5'', \<lparr>maker = - 0.0001, taker = 0.0001\<rparr>)]"

text \<open>
  The body of the \<^verbatim>\<open>try\<close> in \<^verbatim>\<open>calculate\<close>. The default of \<^verbatim>\<open>.get\<close> is the subscript
  \<^verbatim>\<open>self.fee_tiers["VIP0"]\<close>, evaluated before the lookup.
\<close>

definition calculate_body :: "string \<Rightarrow> real \<Rightarrow> real \<Rightarrow> py_error + real" where
  "calculate_body fee_tier quantity maker_proportion =
     (case map_of fee_tiers ''VIP0'' of
        None \<Rightarrow> Inl KeyError
      | Some vip0 \<Rightarrow>
          (let tier = (case map_of fee_tiers fee_tier of None \<Rightarrow> vip0 | Some t \<Rightarrow> t);
               maker_fee = maker tier;
               taker_fee = taker tier;
               fee = quantity * ((maker_fee * maker_proportion)
                                 + (taker_fee * (1 - maker_proportion)))
           in Inr fee))"

definition calculate :: "string \<Rightarrow> real \<Rightarrow> real \<Rightarrow> real" where
  "calculate fee_tier quantity maker_proportion =
     (case calculate_body fee_tier quantity maker_proportion of
        Inl e \<Rightarrow> quantity * 0.001
      | Inr fee \<Rightarrow> fee)"

section \<open>PerformanceTracker\<close>

record performance_tracker =
  window_size :: int
  processing_times :: "real list"
  update_times :: "real list"
  last_timestamp :: real

text \<open>\<^verbatim>\<open>PerformanceTracker.__init__\<close>; \<open>now\<close> is the reading of the clock.\<close>

definition new_tracker :: "int \<Rightarrow> real \<Rightarrow> performance_tracker" where
  "new_tracker w now =
     \<lparr>window_size = w, processing_times = [], update_times = [], last_timestamp = now\<rparr>"

text \<open>
  \<^verbatim>\<open>xs.append(v); if len(xs) > self.window_size: xs.pop(0)\<close>. The list is not empty after
  the append, so \<^verbatim>\<open>pop(0)\<close> cannot raise.
\<close>

definition push_window :: "int \<Rightarrow> real list \<Rightarrow> real \<Rightarrow> real list" where
  "push_window w xs v =
     (let ys = xs @ [v] in if int (length ys) > w then tl ys else ys)"

definition track_processing :: "performance_tracker \<Rightarrow> real \<Rightarrow> performance_tracker" where
  "track_processing pt duration_ms =
     pt\<lparr>processing_times := push_window (window_size pt) (processing_times pt) duration_ms\<rparr>"

definition track_update :: "performance_tracker \<Rightarrow> real \<Rightarrow> performance_tracker" where
  "track_update pt now =
     (let update_time = now - last_timestamp pt;
          pt1 = pt\<lparr>last_timestamp := now\<rparr>
      in pt1\<lparr>update_times := push_window (window_size pt1) (update_times pt1) update_time\<rparr>)"

section \<open>TradeSimulator\<close>

record cost_estimate =
  expected_slippage :: real
  expected_fees :: real
  market_impact :: real
  net_cost :: real
  maker_taker_proportion :: real
  internal_latency :: real
  response_timestamp :: string

record trade_simulator =
  orderbook :: "real order_book option"
  performance_tracker :: performance_tracker

text \<open>\<^verbatim>\<open>TradeSimulator.__init__\<close>: no order book, a tracker with the default window of 100.\<close>

definition new_simulator :: "real \<Rightarrow> trade_simulator" where
  "new_simulator now = \<lparr>orderbook = None, performance_tracker = new_tracker 100 now\<rparr>"

definition set_orderbook :: "trade_simulator \<Rightarrow> real order_book \<Rightarrow> trade_simulator" where
  "set_orderbook sim ob = sim\<lparr>orderbook := Some ob\<rparr>"

text \<open>
  \<^verbatim>\<open>TradeSimulator.simulate\<close>. The result is the response dictionary: \<open>Inl\<close> the message of
  an \<^verbatim>\<open>{"error": ...}\<close> payload, \<open>Inr\<close> the estimate. \<open>start_time\<close> and \<open>end_time\<close> are the two
  readings of \<^verbatim>\<open>time.time()\<close> and \<open>iso_now\<close> is \<^verbatim>\<open>datetime.now().isoformat()\<close>. The three
  models called first catch their own exceptions; the division by the mid price is
  evaluated in \<^verbatim>\<open>simulate\<close> itself, as an argument of \<^verbatim>\<open>calculate_impact\<close>. An order book
  object is always truthy, so \<^verbatim>\<open>not self.orderbook\<close> holds for \<^verbatim>\<open>None\<close> only. The
  message of the payload is \<^verbatim>\<open>str(e)\<close> of the ZeroDivisionError of a float division.
\<close>

definition simulate ::
  "trade_simulator \<Rightarrow> real \<Rightarrow> real \<Rightarrow> string \<Rightarrow> string \<Rightarrow> string \<Rightarrow> string \<Rightarrow> real \<Rightarrow> real \<Rightarrow> string
     \<Rightarrow> (string + cost_estimate) \<times> trade_simulator" where
  "simulate sim start_time end_time iso_now exchange_name symbol_name order_type quantity volatility fee_tier =
     (case orderbook sim of
        None \<Rightarrow> (Inl ''No orderbook data available'', sim)
      | Some ob \<Rightarrow>
          (let is_buy = True;
               slippage = estimate ob quantity is_buy;
               proportion = predict ob quantity;
               fees = calculate fee_tier quantity proportion
           in if mid_price ob = 0 then (Inl ''float division by zero'', sim)
              else
                let impact = calculate_impact default_params volatility
                               (quantity / mid_price ob) (mid_price ob) 1.0;
                    cost = (quantity * slippage) + fees + (quantity * impact);
                    processing_time_ms = (end_time - start_time) * 1000;
                    sim1 = sim\<lparr>performance_tracker :=
                                  track_processing (performance_tracker sim) processing_time_ms\<rparr>
                in (Inr \<lparr>expected_slippage = slippage,
                         expected_fees = fees,
                         market_impact = impact,
                         net_cost = cost,
                         maker_taker_proportion = proportion,
                         internal_latency = processing_time_ms,
                         response_timestamp = iso_now\<rparr>,
                    sim1)))"

section \<open>A parser of decimal literals\<close>

text \<open>
  Python's \<^verbatim>\<open>float\<close> on plain decimal literals: an optional sign, digits and an optional
  point, with at least one digit. It serves as the parser wherever a concrete one is needed,
  and is applied below to such literals and to \<^verbatim>\<open>"x"\<close> only; it does not read exponents,
  surrounding blanks, \<^verbatim>\<open>"inf"\<close> or \<^verbatim>\<open>"nan"\<close>.
\<close>

definition digit_of :: "char \<Rightarrow> nat option" where
  "digit_of c =
     (let n = (of_char c :: nat) in if 48 \<le> n \<and> n \<le> 57 then Some (n - 48) else None)"

fun digits_value :: "nat \<Rightarrow> string \<Rightarrow> nat option" where
  "digits_value acc [] = Some acc"
| "digits_value acc (c # cs) =
     (case digit_of c of None \<Rightarrow> None | Some d \<Rightarrow> digits_value (10 * acc + d) cs)"

definition float_dec :: "string \<Rightarrow> real option" where
  "float_dec s =
     (let (neg, body) =
            (case s of
               c # r \<Rightarrow>
                 (if c = CHR ''-'' then (True, r)
                  else if c = CHR ''+'' then (False, r) else (False, s))
             | [] \<Rightarrow> (False, s));
          ip = takeWhile (\<lambda>c. c \<noteq> CHR ''.'') body;
          fp = drop 1 (dropWhile (\<lambda>c. c \<noteq> CHR ''.'') body)
      in if ip = [] \<and> fp = [] then None
         else
           case (digits_value 0 ip, digits_value 0 fp) of
             (Some i, Some f) \<Rightarrow>
               Some ((if neg then - 1 else 1) * (real i + real f / 10 ^ length fp))
           | _ \<Rightarrow> None)"

section \<open>Sequences of tracker calls\<close>

text \<open>
  A run of the tracker is a list of calls, applied in order; \<open>Track_update\<close> carries the
  clock reading of that call.
\<close>

datatype tracker_call = Track_processing real | Track_update real

fun apply_call :: "performance_tracker \<Rightarrow> tracker_call \<Rightarrow> performance_tracker" where
  "apply_call pt (Track_processing duration_ms) = track_processing pt duration_ms"
| "apply_call pt (Track_update now) = track_update pt now"

definition run_calls :: "performance_tracker \<Rightarrow> tracker_call list \<Rightarrow> performance_tracker" where
  "run_calls pt calls = foldl apply_call pt calls"

text \<open>The samples pushed by a run, in push order: the durations, and the update intervals.\<close>

fun durations :: "tracker_call list \<Rightarrow> real list" where
  "durations [] = []"
| "durations (Track_processing d # calls) = d # durations calls"
| "durations (Track_update now # calls) = durations calls"

fun intervals :: "real \<Rightarrow> tracker_call list \<Rightarrow> real list" where
  "intervals prev [] = []"
| "intervals prev (Track_update now # calls) = (now - prev) # intervals now calls"
| "intervals prev (Track_processing d # calls) = intervals prev calls"

text \<open>The \<open>n\<close> most recent entries of a sequence (all of it when it is shorter).\<close>

definition most_recent :: "nat \<Rightarrow> 'a list \<Rightarrow> 'a list" where
  "most_recent n xs = drop (length xs - n) xs"

section \<open>Float values beyond the finite ones\<close>

text \<open>
  A Python float is a finite number, an infinity or NaN, and the two models below follow
  \<^verbatim>\<open>calculate_impact\<close> and \<^verbatim>\<open>estimate\<close> over all of these values: \<^verbatim>\<open>float("inf")\<close> and
  \<^verbatim>\<open>float("nan")\<close> are accepted wherever the program converts a token or a request
  parameter. The operations follow IEEE 754 on the infinities and NaN and are exact on finite
  operands (no rounding, no overflow; the sign of zero is not tracked).
\<close>

datatype pyfloat = Fin real | PInf | NInf | NaN

fun fneg :: "pyfloat \<Rightarrow> pyfloat" where
  "fneg (Fin a) = Fin (- a)"
| "fneg PInf = NInf"
| "fneg NInf = PInf"
| "fneg NaN = NaN"

fun fadd :: "pyfloat \<Rightarrow> pyfloat \<Rightarrow> pyfloat" where
  "fadd NaN b = NaN"
| "fadd a NaN = NaN"
| "fadd (Fin a) (Fin b) = Fin (a + b)"
| "fadd PInf NInf = NaN"
| "fadd NInf PInf = NaN"
| "fadd PInf b = PInf"
| "fadd a PInf = PInf"
| "fadd NInf b = NInf"
| "fadd a NInf = NInf"

definition fsub :: "pyfloat \<Rightarrow> pyfloat \<Rightarrow> pyfloat" where
  "fsub a b = fadd a (fneg b)"

text \<open>An infinity times a finite number: NaN at 0, otherwise the sign decides.\<close>

definition inf_times :: "bool \<Rightarrow> real \<Rightarrow> pyfloat" where
  "inf_times positive a =
     (if a = 0 then NaN else if (0 < a) = positive then PInf else NInf)"

fun fmul :: "pyfloat \<Rightarrow> pyfloat \<Rightarrow> pyfloat" where
  "fmul NaN b = NaN"
| "fmul a NaN = NaN"
| "fmul (Fin a) (Fin b) = Fin (a * b)"
| "fmul (Fin a) PInf = inf_times True a"
| "fmul (Fin a) NInf = inf_times False a"
| "fmul PInf (Fin b) = inf_times True b"
| "fmul NInf (Fin b) = inf_times False b"
| "fmul PInf PInf = PInf"
| "fmul PInf NInf = NInf"
| "fmul NInf PInf = NInf"
| "fmul NInf NInf = PInf"

text \<open>The quotient by a divisor other than zero.\<close>

fun fquot :: "pyfloat \<Rightarrow> pyfloat \<Rightarrow> pyfloat" where
  "fquot NaN b = NaN"
| "fquot a NaN = NaN"
| "fquot (Fin a) (Fin b) = Fin (a / b)"
| "fquot (Fin a) b = Fin 0"
| "fquot PInf (Fin b) = (if 0 < b then PInf else NInf)"
| "fquot NInf (Fin b) = (if 0 < b then NInf else PInf)"
| "fquot a b = NaN"

text \<open>
  \<^verbatim>\<open>a / b\<close> on Python floats: a zero divisor raises, whatever the dividend.
\<close>

definition py_div :: "pyfloat \<Rightarrow> pyfloat \<Rightarrow> py_error + pyfloat" where
  "py_div a b = (if b = Fin 0 then Inl ZeroDivisionError else Inr (fquot a b))"

text \<open>\<^verbatim>\<open>a < b\<close> and \<^verbatim>\<open>a <= b\<close>: false as soon as one side is NaN.\<close>

fun flt :: "pyfloat \<Rightarrow> pyfloat \<Rightarrow> bool" where
  "flt NaN b = False"
| "flt a NaN = False"
| "flt (Fin a) (Fin b) = (a < b)"
| "flt a NInf = False"
| "flt PInf b = False"
| "flt a b = True"

fun fle :: "pyfloat \<Rightarrow> pyfloat \<Rightarrow> bool" where
  "fle NaN b = False"
| "fle a NaN = False"
| "fle (Fin a) (Fin b) = (a \<le> b)"
| "fle NInf b = True"
| "fle a PInf = True"
| "fle a b = False"

text \<open>
  The built-ins \<^verbatim>\<open>max(a, b)\<close> and \<^verbatim>\<open>min(a, b)\<close> keep \<open>a\<close> unless \<open>b\<close> compares greater (smaller),
  so a NaN in first place is returned.
\<close>

definition py_max :: "pyfloat \<Rightarrow> pyfloat \<Rightarrow> pyfloat" where
  "py_max a b = (if flt a b then b else a)"

definition py_min :: "pyfloat \<Rightarrow> pyfloat \<Rightarrow> pyfloat" where
  "py_min a b = (if flt b a then b else a)"



text \<open>Sequencing inside a \<^verbatim>\<open>try\<close>: the first exception ends the block.\<close>

definition bind_err :: "py_error + 'a \<Rightarrow> ('a \<Rightarrow> py_error + 'b) \<Rightarrow> py_error + 'b" where
  "bind_err r f = (case r of Inl e \<Rightarrow> Inl e | Inr x \<Rightarrow> f x)"



text \<open>\<^verbatim>\<open>SlippageModel.estimate\<close> over all float values: the loop, lines 257 to 270, the whole.\<close>

fun walk_levels_fl ::
  "(pyfloat \<times> pyfloat) list \<Rightarrow> pyfloat \<Rightarrow> pyfloat \<Rightarrow> py_error + (pyfloat \<times> pyfloat)" where
  "walk_levels_fl [] remaining_qty total_cost = Inr (remaining_qty, total_cost)"
| "walk_levels_fl ((price, sz) # levels) remaining_qty total_cost =
     (let level_value_usd = fmul price sz in
      if fle remaining_qty level_value_usd then
        bind_err (py_div remaining_qty level_value_usd)
          (\<lambda>proportion.
             Inr (Fin 0, fadd total_cost (fmul (fmul price proportion) remaining_qty)))
      else walk_levels_fl levels (fsub remaining_qty level_value_usd)
             (fadd total_cost (fmul price sz)))"

definition raw_slippage_fl ::
  "pyfloat order_book \<Rightarrow> pyfloat \<Rightarrow> bool \<Rightarrow> (pyfloat \<times> pyfloat) list \<Rightarrow> pyfloat \<Rightarrow> pyfloat
     \<Rightarrow> py_error + pyfloat" where
  "raw_slippage_fl ob quantity is_buy levels remaining_qty total_cost =
     (let total_cost' =
            (if flt (Fin 0) remaining_qty \<and> levels \<noteq> []
             then fadd total_cost (fmul (fmul (fst (last levels)) remaining_qty) (Fin 1.01))
             else total_cost)
      in bind_err (if flt (Fin 0) quantity then py_div total_cost' quantity else Inr (Fin 0))
           (\<lambda>effective_price.
              if flt (Fin 0) (mid_price ob)
              then bind_err (py_div effective_price (mid_price ob))
                     (\<lambda>ratio. Inr (if is_buy then fsub ratio (Fin 1) else fsub (Fin 1) ratio))
              else Inr (Fin 0)))"

definition estimate_body_fl :: "pyfloat order_book \<Rightarrow> pyfloat \<Rightarrow> bool \<Rightarrow> py_error + pyfloat" where
  "estimate_body_fl ob quantity is_buy =
     (let levels = (if is_buy then asks ob else bids ob) in
      if levels = [] then Inr (Fin 0)
      else
        bind_err (walk_levels_fl levels quantity (Fin 0))
          (\<lambda>(remaining_qty, total_cost).
             bind_err (raw_slippage_fl ob quantity is_buy levels remaining_qty total_cost)
               (\<lambda>slippage.
                  let spread_factor = fmul (spread_pct ob) (Fin 0.1);
                      depth = (if is_buy then ask_depth ob else bid_depth ob)
                  in bind_err (py_div (Fin 1) (fadd depth (Fin 1)))
                       (\<lambda>inverse.
                          let depth_factor = fmul inverse (Fin 0.05);
                              adjusted_slippage = fadd (fadd slippage spread_factor) depth_factor
                          in Inr (py_max (py_min adjusted_slippage (Fin 0.05)) (Fin 0))))))"

definition estimate_fl :: "pyfloat order_book \<Rightarrow> pyfloat \<Rightarrow> bool \<Rightarrow> pyfloat" where
  "estimate_fl ob quantity is_buy =
     (case estimate_body_fl ob quantity is_buy of
        Inl e \<Rightarrow> Fin 0.001
      | Inr slippage \<Rightarrow> slippage)"

text \<open>A book of finite numbers, seen as a book of floats.\<close>

definition fl_levels :: "(real \<times> real) list \<Rightarrow> (pyfloat \<times> pyfloat) list" where
  "fl_levels levels = map (\<lambda>l. (Fin (fst l), Fin (snd l))) levels"

definition fl_book :: "real order_book \<Rightarrow> pyfloat order_book" where
  "fl_book ob =
     \<lparr>exchange = exchange ob, symbol = symbol ob, asks = fl_levels (asks ob),
      bids = fl_levels (bids ob), timestamp = timestamp ob, mid_price = Fin (mid_price ob),
      spread_pct = Fin (spread_pct ob), ask_depth = Fin (ask_depth ob),
      bid_depth = Fin (bid_depth ob), last_update_time = Fin (last_update_time ob)\<rparr>"

section \<open>Scenarios\<close>

text \<open>The book of the end-to-end scenario, as a feed record with string tokens.\<close>

definition book_data :: feed_record where
  "book_data = map_of
     [(''timestamp'', JStr ''t1''),
      (''asks'', JArr [JArr [JStr ''101'', JStr ''1''], JArr [JStr ''102'', JStr ''2'']]),
      (''bids'', JArr [JArr [JStr ''100'', JStr ''1''], JArr [JStr ''99'', JStr ''2'']])]"

text \<open>A record whose asks parse and whose only bid has an unparseable price.\<close>

definition bad_bid_data :: feed_record where
  "bad_bid_data = map_of
     [(''timestamp'', JStr ''t2''),
      (''asks'', JArr [JArr [JStr ''101'', JStr ''1'']]),
      (''bids'', JArr [JArr [JStr ''x'', JStr ''1'']])]"

text \<open>A record with no asks and one bid.\<close>

definition empty_asks_data :: feed_record where
  "empty_asks_data = map_of
     [(''timestamp'', JStr ''t3''),
      (''asks'', JArr []),
      (''bids'', JArr [JArr [JStr ''100'', JStr ''1'']])]"

definition fresh_book :: "real order_book" where
  "fresh_book = new_order_book ''OKX'' ''BTC-USDT-SWAP''"

text \<open>The stored state after the scenario's record has been accepted.\<close>

definition scenario_book :: "real order_book" where
  "scenario_book =
     fresh_book\<lparr>asks := [(101, 1), (102, 2)], bids := [(100, 1), (99, 2)],
                timestamp := JStr ''t1'', mid_price := 100.5, spread_pct := 200 / 201,
                ask_depth := 3, bid_depth := 3, last_update_time := 1\<rparr>"

section \<open>Properties of the float operations\<close>

lemma bind_err_simps: "bind_err (Inl e) f = Inl e" "bind_err (Inr x) f = f x"
  by (simp_all add: bind_err_def)

lemma py_max_Fin: "py_max (Fin a) (Fin b) = Fin (max a b)"
  by (simp add: py_max_def max_def)

lemma py_min_Fin: "py_min (Fin a) (Fin b) = Fin (min a b)"
  by (simp add: py_min_def min_def)

lemma py_div_Fin:
  "py_div (Fin a) (Fin b) = (if b = 0 then Inl ZeroDivisionError else Inr (Fin (a / b)))"
  by (simp add: py_div_def)

text \<open>
  The two clamps of the source: a NaN goes through unchanged, every other value, infinite or
  not, ends in the interval.
\<close>

lemma clamp_slippage_fl:
  "(x = NaN \<and> py_max (py_min x (Fin 0.05)) (Fin 0) = NaN)
   \<or> (x \<noteq> NaN \<and> fle (Fin 0) (py_max (py_min x (Fin 0.05)) (Fin 0))
       \<and> fle (py_max (py_min x (Fin 0.05)) (Fin 0)) (Fin 0.05))"
  by (cases x) (auto simp: py_max_def py_min_def)


lemma fl_book_sel:
  "asks (fl_book ob) = fl_levels (asks ob)" "bids (fl_book ob) = fl_levels (bids ob)"
  "mid_price (fl_book ob) = Fin (mid_price ob)" "spread_pct (fl_book ob) = Fin (spread_pct ob)"
  "ask_depth (fl_book ob) = Fin (ask_depth ob)" "bid_depth (fl_book ob) = Fin (bid_depth ob)"
  by (simp_all add: fl_book_def)

lemma fl_levels_Nil: "fl_levels ls = [] \<longleftrightarrow> ls = []"
  by (simp add: fl_levels_def)

lemma last_fl_levels: "ls \<noteq> [] \<Longrightarrow> fst (last (fl_levels ls)) = Fin (fst (last ls))"
  by (simp add: fl_levels_def last_map)

section \<open>Properties of the slippage model\<close>

text \<open>
  Two runs of \<^verbatim>\<open>estimate\<close> on finite values: on the scenario's book an order of 100 is filled
  within the first ask level and the adjusted slippage is cut at 0.05; with an ask depth of
  -1 the depth factor divides by zero and the fallback is returned.
\<close>

lemma estimate_scenario_example: "estimate scenario_book 100 True = 0.05"
  by (simp add: estimate_def estimate_body_def raw_slippage_def scenario_book_def
        fresh_book_def new_order_book_def Let_def)

lemma estimate_fallback_example: "estimate (scenario_book\<lparr>ask_depth := - 1\<rparr>) 100 True = 0.001"
  by (simp add: estimate_def estimate_body_def raw_slippage_def scenario_book_def
        fresh_book_def new_order_book_def Let_def)

text \<open>
  On finite books and quantities the model over all float values computes what the model
  over the reals computes: the loop, lines 257 to 270, the body, the whole.
\<close>

lemma walk_levels_fl_finite:
  "walk_levels_fl (fl_levels ls) (Fin r) (Fin t)
     = (case walk_levels ls r t of Inl e \<Rightarrow> Inl e | Inr (r', t') \<Rightarrow> Inr (Fin r', Fin t'))"
  by (induction ls r t rule: walk_levels.induct)
     (auto simp: fl_levels_def bind_err_def py_div_def fsub_def Let_def)

lemma raw_slippage_fl_finite:
  assumes "ls \<noteq> []"
  shows "raw_slippage_fl (fl_book ob) (Fin q) b (fl_levels ls) (Fin r) (Fin t)
           = Inr (Fin (raw_slippage ob q b ls r t))"
  using assms
  by (simp add: raw_slippage_fl_def raw_slippage_def fl_book_sel bind_err_simps py_div_def
        fsub_def Let_def fl_levels_Nil last_fl_levels)

lemma estimate_body_fl_finite:
  "estimate_body_fl (fl_book ob) (Fin q) b
     = (case estimate_body ob q b of Inl e \<Rightarrow> Inl e | Inr v \<Rightarrow> Inr (Fin v))"
proof -
  define ls where "ls = (if b then asks ob else bids ob)"
  define depth where "depth = (if b then ask_depth ob else bid_depth ob)"
  have fl: "estimate_body_fl (fl_book ob) (Fin q) b =
      (if fl_levels ls = [] then Inr (Fin 0)
       else bind_err (walk_levels_fl (fl_levels ls) (Fin q) (Fin 0))
          (\<lambda>(remaining_qty, total_cost).
             bind_err (raw_slippage_fl (fl_book ob) (Fin q) b (fl_levels ls)
                         remaining_qty total_cost)
               (\<lambda>slippage.
                  bind_err (py_div (Fin 1) (fadd (Fin depth) (Fin 1)))
                    (\<lambda>inverse.
                       Inr (py_max
                              (py_min
                                 (fadd (fadd slippage (fmul (Fin (spread_pct ob)) (Fin 0.1)))
                                    (fmul inverse (Fin 0.05)))
                                 (Fin 0.05))
                              (Fin 0))))))"
    by (cases b) (simp_all add: estimate_body_fl_def fl_book_sel ls_def depth_def Let_def)
  have re: "estimate_body ob q b =
      (if ls = [] then Inr 0
       else case walk_levels ls q 0 of
           Inl e \<Rightarrow> Inl e
         | Inr (remaining_qty, total_cost) \<Rightarrow>
            if depth + 1 = 0 then Inl ZeroDivisionError
            else Inr (max (min (raw_slippage ob q b ls remaining_qty total_cost
                                  + spread_pct ob * 0.1 + (1 / (depth + 1)) * 0.05) 0.05) 0))"
    by (cases b)
       (simp_all add: estimate_body_def ls_def depth_def Let_def split: sum.splits prod.splits)
  show ?thesis
  proof (cases "ls = []")
    case True
    then show ?thesis unfolding fl re by (simp add: fl_levels_Nil)
  next
    case False
    show ?thesis
    proof (cases "walk_levels ls q 0")
      case (Inl e)
      with False show ?thesis unfolding fl re
        by (simp add: fl_levels_Nil walk_levels_fl_finite bind_err_simps)
    next
      case (Inr rt)
      obtain r t where "rt = (r, t)" by (cases rt)
      with Inr False show ?thesis unfolding fl re
        by (simp add: fl_levels_Nil walk_levels_fl_finite bind_err_simps raw_slippage_fl_finite
              py_div_Fin py_max_Fin py_min_Fin)
    qed
  qed
qed

lemma estimate_fl_finite: "estimate_fl (fl_book ob) (Fin q) b = Fin (estimate ob q b)"
  by (simp add: estimate_fl_def estimate_def estimate_body_fl_finite split: sum.splits)

text \<open>
  What \<^verbatim>\<open>estimate\<close> returns over all float values: 0 on an empty side; otherwise the fallback,
  the clamp of an adjusted slippage that is not NaN, or NaN itself. No exception is raised on
  a NaN, so the fallback does not replace it.
\<close>

lemma estimate_body_fl_cases:
  "estimate_body_fl ob q b = Inr (Fin 0) \<or> (\<exists>e. estimate_body_fl ob q b = Inl e)
     \<or> (\<exists>x. estimate_body_fl ob q b = Inr (py_max (py_min x (Fin 0.05)) (Fin 0)))"
proof (cases "(if b then asks ob else bids ob) = []")
  case True
  then show ?thesis by (simp add: estimate_body_fl_def)
next
  case False
  show ?thesis
  proof (cases "walk_levels_fl (if b then asks ob else bids ob) q (Fin 0)")
    case (Inl e)
    with False show ?thesis by (simp add: estimate_body_fl_def bind_err_simps)
  next
    case (Inr rt)
    obtain r t where rt: "rt = (r, t)" by (cases rt)
    show ?thesis
    proof (cases "raw_slippage_fl ob q b (if b then asks ob else bids ob) r t")
      case (Inl e)
      with Inr rt False show ?thesis by (simp add: estimate_body_fl_def bind_err_simps)
    next
      case slip: (Inr sl)
      show ?thesis
      proof (cases "py_div (Fin 1) (fadd (if b then ask_depth ob else bid_depth ob) (Fin 1))")
        case (Inl e)
        with slip Inr rt False show ?thesis
          by (simp add: estimate_body_fl_def bind_err_simps Let_def)
      next
        case inv: (Inr i)
        with slip Inr rt False show ?thesis
          by (auto simp add: estimate_body_fl_def bind_err_simps Let_def)
      qed
    qed
  qed
qed

lemma estimate_fl_zero_bounded_or_nan:
  "((if is_buy then asks ob else bids ob) = [] \<longrightarrow> estimate_fl ob quantity is_buy = Fin 0)
   \<and> (estimate_fl ob quantity is_buy = NaN
       \<or> (fle (Fin 0) (estimate_fl ob quantity is_buy)
           \<and> fle (estimate_fl ob quantity is_buy) (Fin 0.05)))"
proof -
  have "(if is_buy then asks ob else bids ob) = [] \<longrightarrow> estimate_fl ob quantity is_buy = Fin 0"
    by (simp add: estimate_fl_def estimate_body_fl_def)
  moreover have "estimate_fl ob quantity is_buy = NaN
       \<or> (fle (Fin 0) (estimate_fl ob quantity is_buy)
           \<and> fle (estimate_fl ob quantity is_buy) (Fin 0.05))"
  proof -
    consider "estimate_body_fl ob quantity is_buy = Inr (Fin 0)"
      | e where "estimate_body_fl ob quantity is_buy = Inl e"
      | x where "estimate_body_fl ob quantity is_buy
                   = Inr (py_max (py_min x (Fin 0.05)) (Fin 0))"
      using estimate_body_fl_cases [of ob quantity is_buy] by blast
    then show ?thesis
    proof cases
      case 1
      then show ?thesis by (simp add: estimate_fl_def)
    next
      case 2
      then show ?thesis by (simp add: estimate_fl_def)
    next
      case 3
      with clamp_slippage_fl [of x] show ?thesis by (auto simp: estimate_fl_def)
    qed
  qed
  ultimately show ?thesis by blast
qed

text \<open>
  C5 fails in the code. The asks of the scenario's book are not empty, and for the quantity
  \<^verbatim>\<open>float("inf")\<close> the walk leaves an infinite remainder, the total cost becomes infinite,
  the effective price is inf / inf = NaN, and \<^verbatim>\<open>max(min(nan, 0.05), 0)\<close> is NaN: nothing raises,
  so \<^verbatim>\<open>estimate\<close> returns NaN, which is neither in the interval from 0 to 0.05 nor the fallback
  0.001. The comment above the \<^verbatim>\<open>return\<close> says that the slippage is kept within bounds.
\<close>

theorem estimate_nan_at_infinite_quantity:
  "asks (fl_book scenario_book) \<noteq> []
   \<and> estimate_fl (fl_book scenario_book) PInf True = NaN
   \<and> \<not> fle (Fin 0) (estimate_fl (fl_book scenario_book) PInf True)
   \<and> \<not> fle (estimate_fl (fl_book scenario_book) PInf True) (Fin 0.05)
   \<and> estimate_fl (fl_book scenario_book) PInf True \<noteq> Fin 0.001"
proof -
  have "estimate_fl (fl_book scenario_book) PInf True = NaN"
    by (simp add: estimate_fl_def estimate_body_fl_def raw_slippage_fl_def fl_book_def
          fl_levels_def scenario_book_def fresh_book_def new_order_book_def bind_err_def
          py_div_def fsub_def py_max_def py_min_def inf_times_def Let_def)
  moreover have "asks (fl_book scenario_book) \<noteq> []"
    by (simp add: fl_book_def fl_levels_def scenario_book_def)
  ultimately show ?thesis by simp
qed

section \<open>Properties of the fee calculator\<close>

text \<open>
  C6. For every tier of the fee table with rates \<open>r\<close>, every quantity and every maker
  probability \<open>p\<close>, \<^verbatim>\<open>FeeCalculator.calculate\<close> returns quantity * (maker * p + taker * (1 - p));
  so \<open>p = 1\<close> gives quantity * maker and \<open>p = 0\<close> gives quantity * taker. The maker rate of
  VIP5 is negative and is not clamped: the fee of a pure maker order of size 1 is -0.0001.
\<close>

theorem calculate_weighted_fee:
  "(map_of fee_tiers tier = Some r \<longrightarrow>
      calculate tier quantity p = quantity * (maker r * p + taker r * (1 - p))
      \<and> calculate tier quantity 1 = quantity * maker r
      \<and> calculate tier quantity 0 = quantity * taker r)
   \<and> map_of fee_tiers ''VIP5'' = Some \<lparr>maker = - 0.0001, taker = 0.0001\<rparr>
   \<and> calculate ''VIP5'' 1 1 = - 0.0001
   \<and> calculate ''VIP5'' 1 1 < 0"
  by (simp add: calculate_def calculate_body_def fee_tiers_def)

theorem calculate_weighted_fee_witness:
  "map_of fee_tiers ''VIP0'' = Some \<lparr>maker = 0.0008, taker = 0.0010\<rparr>
   \<and> calculate ''VIP0'' 100 0.25 = 100 * (0.0008 * 0.25 + 0.0010 * (1 - 0.25))
   \<and> calculate ''VIP0'' 100 1 = 100 * 0.0008
   \<and> calculate ''VIP0'' 100 0 = 100 * 0.0010"
proof -
  have t: "map_of fee_tiers ''VIP0'' = Some \<lparr>maker = 0.0008, taker = 0.0010\<rparr>"
    by (simp add: fee_tiers_def)
  show ?thesis
    using t calculate_weighted_fee [of "''VIP0''" "\<lparr>maker = 0.0008, taker = 0.0010\<rparr>" 100 "0.25"]
    by simp
qed

section \<open>Properties of the simulator\<close>

text \<open>
  C7. While no order book has been installed in the simulator, \<^verbatim>\<open>simulate\<close> returns the error
  payload with the message "No orderbook data available", whatever its arguments, and no
  estimate; the simulator is left as it was.
\<close>

theorem simulate_without_orderbook:
  "orderbook sim = None \<Longrightarrow>
   simulate sim start_time end_time iso_now exchange_name symbol_name order_type
       quantity volatility fee_tier
     = (Inl ''No orderbook data available'', sim)"
  by (simp add: simulate_def)

theorem simulate_without_orderbook_witness:
  "orderbook (new_simulator 0) = None
   \<and> simulate (new_simulator 0) 1 2 ''2025-01-01T00:00:00'' ''OKX'' ''BTC-USDT'' ''market''
         100 0.02 ''VIP0''
       = (Inl ''No orderbook data available'', new_simulator 0)"
proof -
  have n: "orderbook (new_simulator 0) = None"
    by (simp add: new_simulator_def)
  show ?thesis
    using n simulate_without_orderbook [OF n] by simp
qed

text \<open>
  C8. Whenever \<^verbatim>\<open>simulate\<close> returns an estimate, its net cost is
  quantity * expected_slippage + expected_fees + quantity * market_impact, where the three
  fields are the results of the slippage model, of the fee calculator (on the predicted maker
  proportion) and of the impact model (on the quantity in base units) on the installed book.
\<close>

theorem simulate_net_cost:
  assumes "fst (simulate sim start_time end_time iso_now exchange_name symbol_name order_type
                  quantity volatility fee_tier) = Inr ce"
  shows "net_cost ce
           = quantity * expected_slippage ce + expected_fees ce + quantity * market_impact ce
         \<and> (\<exists>ob. orderbook sim = Some ob
               \<and> expected_slippage ce = estimate ob quantity True
               \<and> maker_taker_proportion ce = predict ob quantity
               \<and> expected_fees ce = calculate fee_tier quantity (predict ob quantity)
               \<and> market_impact ce
                   = calculate_impact default_params volatility (quantity / mid_price ob)
                       (mid_price ob) 1)"
proof (cases "orderbook sim")
  case None
  with assms show ?thesis by (simp add: simulate_def)
next
  case (Some ob)
  show ?thesis
  proof (cases "mid_price ob = 0")
    case True
    with Some assms show ?thesis by (simp add: simulate_def)
  next
    case False
    with Some assms have
      "ce = \<lparr>expected_slippage = estimate ob quantity True,
             expected_fees = calculate fee_tier quantity (predict ob quantity),
             market_impact = calculate_impact default_params volatility
                               (quantity / mid_price ob) (mid_price ob) 1,
             net_cost = quantity * estimate ob quantity True
                          + calculate fee_tier quantity (predict ob quantity)
                          + quantity * calculate_impact default_params volatility
                                         (quantity / mid_price ob) (mid_price ob) 1,
             maker_taker_proportion = predict ob quantity,
             internal_latency = (end_time - start_time) * 1000,
             response_timestamp = iso_now\<rparr>"
      by (simp add: simulate_def Let_def)
    with Some show ?thesis by simp
  qed
qed

theorem simulate_net_cost_witness:
  "\<exists>ce. fst (simulate (set_orderbook (new_simulator 0) scenario_book) 1 2
                ''2025-01-01T00:00:00'' ''OKX'' ''BTC-USDT'' ''market'' 100 0.02 ''VIP0'') = Inr ce
        \<and> net_cost ce = 100 * expected_slippage ce + expected_fees ce + 100 * market_impact ce
        \<and> expected_slippage ce = estimate scenario_book 100 True"
proof -
  obtain ce where c:
    "fst (simulate (set_orderbook (new_simulator 0) scenario_book) 1 2
            ''2025-01-01T00:00:00'' ''OKX'' ''BTC-USDT'' ''market'' 100 0.02 ''VIP0'') = Inr ce"
    by (simp add: simulate_def set_orderbook_def new_simulator_def scenario_book_def Let_def)
  from simulate_net_cost [OF c] c show ?thesis
    by (auto simp: set_orderbook_def new_simulator_def)
qed

text \<open>
  C10. With a book installed whose mid price is 0, \<^verbatim>\<open>simulate\<close> returns an error payload for
  every quantity (so for every positive one): the division of the quantity by the mid price
  raises in \<^verbatim>\<open>simulate\<close> itself and its \<^verbatim>\<open>except\<close> turns the exception into the payload. No
  estimate is returned and the tracker records nothing.
\<close>

theorem simulate_zero_mid_price:
  "orderbook sim = Some ob \<Longrightarrow> mid_price ob = 0 \<Longrightarrow>
   simulate sim start_time end_time iso_now exchange_name symbol_name order_type
       quantity volatility fee_tier
     = (Inl ''float division by zero'', sim)"
  by (simp add: simulate_def Let_def)

section \<open>Properties of the order book\<close>

lemma float_dec_samples:
  "float_dec ''100'' = Some 100" "float_dec ''1'' = Some 1" "float_dec ''99'' = Some 99"
  "float_dec ''2'' = Some 2" "float_dec ''101'' = Some 101" "float_dec ''102'' = Some 102"
  "float_dec ''x'' = None"
  by (simp_all add: float_dec_def digit_of_def)

lemma parse_side_two_levels:
  assumes "data key = Some (JArr [JArr [JStr a1, JStr b1], JArr [JStr a2, JStr b2]])"
    and "pf a1 = Some x1" "pf b1 = Some y1" "pf a2 = Some x2" "pf b2 = Some y2"
  shows "parse_side pf data key = Inr [(x1, y1), (x2, y2)]"
  using assms by (simp add: parse_side_def parse_level_def unpack2_def)

lemma parse_level_bad_token:
  "float_py pf p = Inl e \<or> float_py pf s = Inl e \<Longrightarrow> \<exists>e'. parse_level pf (JArr [p, s]) = Inl e'"
  by (auto simp: parse_level_def unpack2_def split: sum.splits)

lemma parse_items_bad_token:
  assumes "JArr [p, s] \<in> set items" and "float_py pf p = Inl e \<or> float_py pf s = Inl e"
  shows "\<exists>e'. parse_items pf items = Inl e'"
  using assms(1)
proof (induction items)
  case Nil
  then show ?case by simp
next
  case (Cons item items)
  show ?case
  proof (cases "parse_level pf item")
    case (Inl e1)
    then show ?thesis by simp
  next
    case (Inr l)
    with parse_level_bad_token [OF assms(2)] have "item \<noteq> JArr [p, s]" by auto
    with Cons.prems have "JArr [p, s] \<in> set items" by simp
    from Cons.IH [OF this] Inr show ?thesis by auto
  qed
qed

lemma parse_side_bad_token:
  assumes "data key = Some (JArr items)" and "JArr [p, s] \<in> set items"
    and "float_py pf p = Inl e \<or> float_py pf s = Inl e"
  shows "\<exists>e'. parse_side pf data key = Inl e'"
  using parse_items_bad_token [OF assms(2,3)] assms(1) by (simp add: parse_side_def)

text \<open>What \<^verbatim>\<open>update\<close> returns when the asks, or the bids after them, raise.\<close>

lemma update_asks_raise:
  assumes "parse_side pf data ''asks'' = Inl e"
  shows "update pf now ob data =
           (case data ''timestamp'' of
              None \<Rightarrow> (False, ob)
            | Some ts \<Rightarrow> (False, ob\<lparr>timestamp := ts\<rparr>))"
  using assms by (simp add: update_def split: option.splits)

lemma update_bids_raise:
  assumes "parse_side pf data ''asks'' = Inr pa" and "parse_side pf data ''bids'' = Inl e"
  shows "update pf now ob data =
           (case data ''timestamp'' of
              None \<Rightarrow> (False, ob)
            | Some ts \<Rightarrow> (False, ob\<lparr>timestamp := ts, asks := pa\<rparr>))"
  using assms by (simp add: update_def split: option.splits)

text \<open>What an accepted \<^verbatim>\<open>update\<close> has read and stored.\<close>

lemma update_accepted:
  assumes "update pf now ob data = (True, ob')"
  shows "\<exists>ts pa pb ob6.
           data ''timestamp'' = Some ts
           \<and> parse_side pf data ''asks'' = Inr pa
           \<and> parse_side pf data ''bids'' = Inr pb
           \<and> set_mid_and_spread
                (ob\<lparr>timestamp := ts, asks := sort_key fst pa,
                    bids := sort_key (\<lambda>x. - fst x) pb\<rparr>) = (None, ob6)
           \<and> ob' = ob6\<lparr>ask_depth := depth10 (asks ob6), bid_depth := depth10 (bids ob6),
                        last_update_time := now\<rparr>"
proof -
  obtain ts where ts: "data ''timestamp'' = Some ts"
    using assms by (cases "data ''timestamp''") (simp_all add: update_def)
  obtain pa where pa: "parse_side pf data ''asks'' = Inr pa"
    using assms ts by (cases "parse_side pf data ''asks''") (simp_all add: update_def)
  obtain pb where pb: "parse_side pf data ''bids'' = Inr pb"
    using assms ts pa by (cases "parse_side pf data ''bids''") (simp_all add: update_def)
  let ?ob5 = "ob\<lparr>timestamp := ts, asks := sort_key fst pa,
                  bids := sort_key (\<lambda>x. - fst x) pb\<rparr>"
  obtain r ob6 where m: "set_mid_and_spread ?ob5 = (r, ob6)"
    by (cases "set_mid_and_spread ?ob5")
  have "r = None"
    using assms ts pa pb m by (cases r) (simp_all add: update_def)
  with assms ts pa pb m show ?thesis
    by (simp add: update_def)
qed

lemma set_mid_and_spread_empty_side:
  "asks ob = [] \<or> bids ob = [] \<Longrightarrow> set_mid_and_spread ob = (None, ob)"
  by (auto simp: set_mid_and_spread_def split: list.splits)

lemma set_mid_and_spread_frame:
  "set_mid_and_spread ob = (r, ob') \<Longrightarrow>
   asks ob' = asks ob \<and> bids ob' = bids ob \<and> timestamp ob' = timestamp ob
   \<and> ask_depth ob' = ask_depth ob \<and> bid_depth ob' = bid_depth ob
   \<and> last_update_time ob' = last_update_time ob"
  by (auto simp: set_mid_and_spread_def Let_def split: list.splits if_splits)

lemma bad_bid_data_sides:
  "bad_bid_data ''timestamp'' = Some (JStr ''t2'')"
  "bad_bid_data ''asks'' = Some (JArr [JArr [JStr ''101'', JStr ''1'']])"
  "bad_bid_data ''bids'' = Some (JArr [JArr [JStr ''x'', JStr ''1'']])"
  "parse_side float_dec bad_bid_data ''asks'' = Inr [(101, 1)]"
  "parse_side float_dec bad_bid_data ''bids'' = Inl ValueError"
  by (simp_all add: bad_bid_data_def parse_side_def parse_level_def unpack2_def
        float_dec_samples)

lemma update_bad_bid_data:
  "update float_dec now ob bad_bid_data = (False, ob\<lparr>timestamp := JStr ''t2'', asks := [(101, 1)]\<rparr>)"
  using update_bids_raise [OF bad_bid_data_sides(4,5), of now ob]
  by (simp add: bad_bid_data_sides)

text \<open>
  C1, as stated, fails. The record \<open>bad_bid_data\<close> has the unparseable bid price \<^verbatim>\<open>"x"\<close>;
  \<^verbatim>\<open>update\<close> rejects it, but has already overwritten the timestamp and the asks of the
  stored state: the timestamp goes from \<^verbatim>\<open>"t1"\<close> to \<^verbatim>\<open>"t2"\<close> and the asks lose a level,
  while the mid price and the depths still describe the old book.
\<close>

theorem update_not_atomic_counterexample:
  "bad_bid_data ''bids'' = Some (JArr [JArr [JStr ''x'', JStr ''1'']])
   \<and> float_py float_dec (JStr ''x'') = Inl ValueError
   \<and> fst (update float_dec 5 scenario_book bad_bid_data) = False
   \<and> timestamp scenario_book = JStr ''t1''
   \<and> timestamp (snd (update float_dec 5 scenario_book bad_bid_data)) = JStr ''t2''
   \<and> asks scenario_book = [(101, 1), (102, 2)]
   \<and> asks (snd (update float_dec 5 scenario_book bad_bid_data)) = [(101, 1)]
   \<and> snd (update float_dec 5 scenario_book bad_bid_data) \<noteq> scenario_book"
proof -
  have "timestamp (scenario_book\<lparr>timestamp := JStr ''t2'', asks := [(101, 1)]\<rparr>)
          \<noteq> timestamp scenario_book"
    by (simp add: scenario_book_def)
  then have "scenario_book\<lparr>timestamp := JStr ''t2'', asks := [(101, 1)]\<rparr> \<noteq> scenario_book"
    by metis
  then show ?thesis
    by (simp add: update_bad_bid_data bad_bid_data_sides float_dec_samples)
       (simp add: scenario_book_def)
qed

text \<open>
  C1, amended. For every stored state and every record whose asks and bids are arrays and
  which holds a level with an unparseable price or size token, \<^verbatim>\<open>update\<close> returns \<open>False\<close>,
  and the bids, the mid price, the spread, both depths, the time of the last update, the
  exchange and the symbol are what they were before the call; the asks are what they were
  too when the unparseable token is among the asks. (The timestamp, and the asks when only a
  bid is unparseable, are not preserved.)
\<close>

theorem update_rejects_unparseable:
  assumes "data ''asks'' = Some (JArr la)" and "data ''bids'' = Some (JArr lb)"
    and "JArr [p, s] \<in> set la \<union> set lb"
    and "float_py pf p = Inl e \<or> float_py pf s = Inl e"
  shows "fst (update pf now ob data) = False
         \<and> bids (snd (update pf now ob data)) = bids ob
         \<and> mid_price (snd (update pf now ob data)) = mid_price ob
         \<and> spread_pct (snd (update pf now ob data)) = spread_pct ob
         \<and> ask_depth (snd (update pf now ob data)) = ask_depth ob
         \<and> bid_depth (snd (update pf now ob data)) = bid_depth ob
         \<and> last_update_time (snd (update pf now ob data)) = last_update_time ob
         \<and> exchange (snd (update pf now ob data)) = exchange ob
         \<and> symbol (snd (update pf now ob data)) = symbol ob
         \<and> (JArr [p, s] \<in> set la \<longrightarrow> asks (snd (update pf now ob data)) = asks ob)"
proof (cases "parse_side pf data ''asks''")
  case (Inl e1)
  from update_asks_raise [OF this, of now ob] show ?thesis
    by (simp split: option.splits)
next
  case (Inr pa)
  have not_la: "JArr [p, s] \<notin> set la"
  proof
    assume "JArr [p, s] \<in> set la"
    from parse_side_bad_token [where data = data and key = "''asks''", OF assms(1) this assms(4)]
      Inr show False by auto
  qed
  with assms(3) have "JArr [p, s] \<in> set lb" by simp
  from parse_side_bad_token [where data = data and key = "''bids''", OF assms(2) this assms(4)]
  obtain e2 where "parse_side pf data ''bids'' = Inl e2" by blast
  from update_bids_raise [OF Inr this, of now ob] not_la show ?thesis
    by (simp split: option.splits)
qed

theorem update_rejects_unparseable_witness:
  "bad_bid_data ''asks'' = Some (JArr [JArr [JStr ''101'', JStr ''1'']])
   \<and> bad_bid_data ''bids'' = Some (JArr [JArr [JStr ''x'', JStr ''1'']])
   \<and> float_py float_dec (JStr ''x'') = Inl ValueError
   \<and> fst (update float_dec 5 scenario_book bad_bid_data) = False
   \<and> bids (snd (update float_dec 5 scenario_book bad_bid_data)) = [(100, 1), (99, 2)]
   \<and> mid_price (snd (update float_dec 5 scenario_book bad_bid_data)) = 100.5
   \<and> ask_depth (snd (update float_dec 5 scenario_book bad_bid_data)) = 3"
proof -
  have f: "float_py float_dec (JStr ''x'') = Inl ValueError
             \<or> float_py float_dec (JStr ''1'') = Inl ValueError"
    by (simp add: float_dec_samples)
  have m: "JArr [JStr ''x'', JStr ''1'']
             \<in> set [JArr [JStr ''101'', JStr ''1'']] \<union> set [JArr [JStr ''x'', JStr ''1'']]"
    by simp
  from update_rejects_unparseable [OF bad_bid_data_sides(2,3) m f, of 5 scenario_book]
  show ?thesis
    by (simp add: bad_bid_data_sides float_dec_samples scenario_book_def)
qed

lemma book_data_sides:
  "book_data ''timestamp'' = Some (JStr ''t1'')"
  "book_data ''asks'' = Some (JArr [JArr [JStr ''101'', JStr ''1''], JArr [JStr ''102'', JStr ''2'']])"
  "book_data ''bids'' = Some (JArr [JArr [JStr ''100'', JStr ''1''], JArr [JStr ''99'', JStr ''2'']])"
  by (simp_all add: book_data_def)

text \<open>
  C2, as stated, fails on the spread. With asks [["101","1"],["102","2"]] and bids
  [["100","1"],["99","2"]] the record is accepted and the spread is
  (101 - 100) / 100.5 * 100 = 200/201, about 0.9950: twice the 0.4975 of the claim.
\<close>

theorem update_scenario_spread_counterexample:
  "fst (update float_dec 1 fresh_book book_data) = True
   \<and> spread_pct (snd (update float_dec 1 fresh_book book_data)) = 200 / 201
   \<and> spread_pct (snd (update float_dec 1 fresh_book book_data)) - 0.4975 > 0.497
   \<and> \<not> \<bar>spread_pct (snd (update float_dec 1 fresh_book book_data)) - 0.4975\<bar> < 0.001"
proof -
  have a: "parse_side float_dec book_data ''asks'' = Inr [(101, 1), (102, 2)]"
    using book_data_sides(2) float_dec_samples by (intro parse_side_two_levels) simp_all
  have b: "parse_side float_dec book_data ''bids'' = Inr [(100, 1), (99, 2)]"
    using book_data_sides(3) float_dec_samples by (intro parse_side_two_levels) simp_all
  have "update float_dec 1 fresh_book book_data =
          (True, fresh_book\<lparr>timestamp := JStr ''t1'', asks := [(101, 1), (102, 2)],
                    bids := [(100, 1), (99, 2)],
                    mid_price := 100.5, spread_pct := 200 / 201, ask_depth := 3,
                    bid_depth := 3, last_update_time := 1\<rparr>)"
    by (simp add: update_def book_data_sides(1) a b set_mid_and_spread_def depth10_def Let_def)
  then show ?thesis by simp
qed

text \<open>
  C2, amended. When the record's asks are [["101","1"],["102","2"]] and its bids are
  [["100","1"],["99","2"]], and the tokens are read as the numbers they spell, \<^verbatim>\<open>update\<close>
  accepts the record and the stored state has mid price 100.5, spread 200/201 per cent
  (within 0.0001 of 0.9950), ask depth 3 and bid depth 3.
\<close>

theorem update_scenario_values:
  assumes "data ''timestamp'' = Some ts"
    and "data ''asks'' = Some (JArr [JArr [JStr ''101'', JStr ''1''], JArr [JStr ''102'', JStr ''2'']])"
    and "data ''bids'' = Some (JArr [JArr [JStr ''100'', JStr ''1''], JArr [JStr ''99'', JStr ''2'']])"
    and "pf ''100'' = Some 100" and "pf ''1'' = Some 1" and "pf ''99'' = Some 99"
    and "pf ''2'' = Some 2" and "pf ''101'' = Some 101" and "pf ''102'' = Some 102"
  shows "fst (update pf now ob data) = True
         \<and> mid_price (snd (update pf now ob data)) = 100.5
         \<and> spread_pct (snd (update pf now ob data)) = 200 / 201
         \<and> \<bar>spread_pct (snd (update pf now ob data)) - 0.9950\<bar> < 0.0001
         \<and> ask_depth (snd (update pf now ob data)) = 3
         \<and> bid_depth (snd (update pf now ob data)) = 3"
proof -
  have a: "parse_side pf data ''asks'' = Inr [(101, 1), (102, 2)]"
    using assms by (intro parse_side_two_levels) simp_all
  have b: "parse_side pf data ''bids'' = Inr [(100, 1), (99, 2)]"
    using assms by (intro parse_side_two_levels) simp_all
  have "update pf now ob data =
          (True, ob\<lparr>timestamp := ts, asks := [(101, 1), (102, 2)], bids := [(100, 1), (99, 2)],
                    mid_price := 100.5, spread_pct := 200 / 201, ask_depth := 3,
                    bid_depth := 3, last_update_time := now\<rparr>)"
    by (simp add: update_def assms(1) a b set_mid_and_spread_def depth10_def Let_def)
  then show ?thesis by simp
qed

theorem update_scenario_values_witness:
  "book_data ''asks'' = Some (JArr [JArr [JStr ''101'', JStr ''1''], JArr [JStr ''102'', JStr ''2'']])
   \<and> book_data ''bids'' = Some (JArr [JArr [JStr ''100'', JStr ''1''], JArr [JStr ''99'', JStr ''2'']])
   \<and> float_dec ''100'' = Some 100 \<and> float_dec ''1'' = Some 1 \<and> float_dec ''99'' = Some 99
   \<and> float_dec ''2'' = Some 2 \<and> float_dec ''101'' = Some 101 \<and> float_dec ''102'' = Some 102
   \<and> fst (update float_dec 1 fresh_book book_data) = True
   \<and> mid_price (snd (update float_dec 1 fresh_book book_data)) = 100.5
   \<and> spread_pct (snd (update float_dec 1 fresh_book book_data)) = 200 / 201
   \<and> ask_depth (snd (update float_dec 1 fresh_book book_data)) = 3
   \<and> bid_depth (snd (update float_dec 1 fresh_book book_data)) = 3"
  using update_scenario_values [OF book_data_sides float_dec_samples(1-6), of 1 fresh_book]
  by (simp add: book_data_sides float_dec_samples)

text \<open>
  C3. For every accepted update whose record has an empty array of asks or an empty array of
  bids, the mid price and the spread after the update are the ones before it, while the
  timestamp is the record's, the asks and bids are the record's parsed levels in sorted
  order, and the depths are the sums over the first ten of these levels.
\<close>

theorem update_empty_side_retains:
  assumes "update pf now ob data = (True, ob')"
    and "data ''asks'' = Some (JArr []) \<or> data ''bids'' = Some (JArr [])"
  shows "mid_price ob' = mid_price ob \<and> spread_pct ob' = spread_pct ob
         \<and> (\<exists>ts pa pb.
               data ''timestamp'' = Some ts
               \<and> parse_side pf data ''asks'' = Inr pa
               \<and> parse_side pf data ''bids'' = Inr pb
               \<and> timestamp ob' = ts
               \<and> asks ob' = sort_key fst pa
               \<and> bids ob' = sort_key (\<lambda>x. - fst x) pb
               \<and> ask_depth ob' = depth10 (sort_key fst pa)
               \<and> bid_depth ob' = depth10 (sort_key (\<lambda>x. - fst x) pb))"
proof -
  from update_accepted [OF assms(1)] obtain ts pa pb ob6 where
    ts: "data ''timestamp'' = Some ts"
    and pa: "parse_side pf data ''asks'' = Inr pa"
    and pb: "parse_side pf data ''bids'' = Inr pb"
    and m: "set_mid_and_spread
              (ob\<lparr>timestamp := ts, asks := sort_key fst pa,
                  bids := sort_key (\<lambda>x. - fst x) pb\<rparr>) = (None, ob6)"
    and ob': "ob' = ob6\<lparr>ask_depth := depth10 (asks ob6), bid_depth := depth10 (bids ob6),
                        last_update_time := now\<rparr>"
    by blast
  have "pa = [] \<or> pb = []"
    using assms(2) pa pb by (auto simp: parse_side_def)
  then have "set_mid_and_spread
               (ob\<lparr>timestamp := ts, asks := sort_key fst pa,
                   bids := sort_key (\<lambda>x. - fst x) pb\<rparr>)
             = (None, ob\<lparr>timestamp := ts, asks := sort_key fst pa,
                         bids := sort_key (\<lambda>x. - fst x) pb\<rparr>)"
    by (intro set_mid_and_spread_empty_side) auto
  with m have "ob6 = ob\<lparr>timestamp := ts, asks := sort_key fst pa,
                        bids := sort_key (\<lambda>x. - fst x) pb\<rparr>"
    by simp
  with ob' ts pa pb show ?thesis by simp
qed

lemma empty_asks_data_sides:
  "empty_asks_data ''timestamp'' = Some (JStr ''t3'')"
  "empty_asks_data ''asks'' = Some (JArr [])"
  "parse_side float_dec empty_asks_data ''asks'' = Inr []"
  "parse_side float_dec empty_asks_data ''bids'' = Inr [(100, 1)]"
  by (simp_all add: empty_asks_data_def parse_side_def parse_level_def unpack2_def
        float_dec_samples)

lemma update_empty_asks_data:
  "update float_dec now ob empty_asks_data =
     (True, ob\<lparr>timestamp := JStr ''t3'', asks := [], bids := [(100, 1)], ask_depth := 0,
               bid_depth := 1, last_update_time := now\<rparr>)"
  by (simp add: update_def empty_asks_data_sides set_mid_and_spread_def depth10_def)

theorem update_empty_side_retains_witness:
  "fst (update float_dec 9 scenario_book empty_asks_data) = True
   \<and> empty_asks_data ''asks'' = Some (JArr [])
   \<and> mid_price (snd (update float_dec 9 scenario_book empty_asks_data)) = 100.5
   \<and> spread_pct (snd (update float_dec 9 scenario_book empty_asks_data)) = 200 / 201
   \<and> asks (snd (update float_dec 9 scenario_book empty_asks_data)) = []
   \<and> bid_depth (snd (update float_dec 9 scenario_book empty_asks_data)) = 1"
proof -
  have u: "update float_dec 9 scenario_book empty_asks_data
             = (True, snd (update float_dec 9 scenario_book empty_asks_data))"
    by (simp add: update_empty_asks_data)
  have e: "empty_asks_data ''asks'' = Some (JArr [])
             \<or> empty_asks_data ''bids'' = Some (JArr [])"
    by (simp add: empty_asks_data_sides)
  from update_empty_side_retains [OF u e] show ?thesis
    by (simp add: update_empty_asks_data empty_asks_data_sides scenario_book_def)
qed

text \<open>
  A book whose first accepted record had no asks keeps the initial mid price 0; installed in
  the simulator, it makes every simulation fail.
\<close>

theorem simulate_zero_mid_price_witness:
  "fst (update float_dec 1 fresh_book empty_asks_data) = True
   \<and> mid_price (snd (update float_dec 1 fresh_book empty_asks_data)) = 0
   \<and> fst (simulate
            (set_orderbook (new_simulator 0) (snd (update float_dec 1 fresh_book empty_asks_data)))
            1 2 ''2025-01-01T00:00:00'' ''OKX'' ''BTC-USDT'' ''market'' 100 0.02 ''VIP0'')
       = Inl ''float division by zero''"
proof -
  let ?ob = "snd (update float_dec 1 fresh_book empty_asks_data)"
  have m: "mid_price ?ob = 0"
    by (simp add: update_empty_asks_data fresh_book_def new_order_book_def)
  have o: "orderbook (set_orderbook (new_simulator 0) ?ob) = Some ?ob"
    by (simp add: set_orderbook_def)
  from simulate_zero_mid_price [OF o m] m show ?thesis
    by (simp add: update_empty_asks_data)
qed

section \<open>Properties of the performance tracker\<close>

lemma length_most_recent: "length (most_recent n xs) \<le> n"
  by (simp add: most_recent_def)

lemma most_recent_short: "length xs \<le> n \<Longrightarrow> most_recent n xs = xs"
  by (simp add: most_recent_def)

lemma most_recent_append: "most_recent n (most_recent n xs @ ys) = most_recent n (xs @ ys)"
proof (cases "length xs \<le> n")
  case True
  then show ?thesis by (simp add: most_recent_short)
next
  case False
  then have "length xs + length ys - n = (length xs - n) + length ys" by simp
  with False show ?thesis
    by (simp add: most_recent_def drop_append add.commute)
qed

lemma push_window_recent:
  assumes "0 \<le> w" and "length xs \<le> nat w"
  shows "push_window w xs v = most_recent (nat w) (xs @ [v])"
proof (cases "length xs < nat w")
  case True
  then have "int (length xs) + 1 \<le> w" by linarith
  then show ?thesis
    by (simp add: push_window_def most_recent_def Let_def)
next
  case False
  with assms have l: "length xs = nat w" by simp
  show ?thesis
  proof (cases xs)
    case Nil
    with l assms show ?thesis
      by (simp add: push_window_def most_recent_def Let_def)
  next
    case (Cons x xs')
    with l assms show ?thesis
      by (simp add: push_window_def most_recent_def Let_def)
  qed
qed

lemma run_calls_Cons: "run_calls pt (c # calls) = run_calls (apply_call pt c) calls"
  by (simp add: run_calls_def)

lemma run_calls_Nil: "run_calls pt [] = pt"
  by (simp add: run_calls_def)

lemma run_calls_windows:
  assumes "0 \<le> window_size pt"
    and "length (processing_times pt) \<le> nat (window_size pt)"
    and "length (update_times pt) \<le> nat (window_size pt)"
  shows "processing_times (run_calls pt calls)
           = most_recent (nat (window_size pt)) (processing_times pt @ durations calls)
         \<and> update_times (run_calls pt calls)
           = most_recent (nat (window_size pt))
               (update_times pt @ intervals (last_timestamp pt) calls)"
  using assms
proof (induction calls arbitrary: pt)
  case Nil
  then show ?case by (simp add: run_calls_Nil most_recent_short)
next
  case (Cons c calls)
  show ?case
  proof (cases c)
    case (Track_processing d)
    let ?pt = "track_processing pt d"
    have p: "processing_times ?pt
               = most_recent (nat (window_size pt)) (processing_times pt @ [d])"
      using Cons.prems by (simp add: track_processing_def push_window_recent)
    have w: "window_size ?pt = window_size pt" "update_times ?pt = update_times pt"
      "last_timestamp ?pt = last_timestamp pt"
      by (simp_all add: track_processing_def)
    have "processing_times (run_calls ?pt calls)
            = most_recent (nat (window_size ?pt)) (processing_times ?pt @ durations calls)
          \<and> update_times (run_calls ?pt calls)
            = most_recent (nat (window_size ?pt))
                (update_times ?pt @ intervals (last_timestamp ?pt) calls)"
      using Cons.prems w p by (intro Cons.IH) (simp_all add: length_most_recent)
    with Track_processing w p show ?thesis
      by (simp add: run_calls_Cons most_recent_append)
  next
    case (Track_update now)
    let ?pt = "track_update pt now"
    have p: "update_times ?pt
               = most_recent (nat (window_size pt))
                   (update_times pt @ [now - last_timestamp pt])"
      using Cons.prems by (simp add: track_update_def push_window_recent Let_def)
    have w: "window_size ?pt = window_size pt" "processing_times ?pt = processing_times pt"
      "last_timestamp ?pt = now"
      by (simp_all add: track_update_def Let_def)
    have "processing_times (run_calls ?pt calls)
            = most_recent (nat (window_size ?pt)) (processing_times ?pt @ durations calls)
          \<and> update_times (run_calls ?pt calls)
            = most_recent (nat (window_size ?pt))
                (update_times ?pt @ intervals (last_timestamp ?pt) calls)"
      using Cons.prems w p by (intro Cons.IH) (simp_all add: length_most_recent)
    with Track_update w p show ?thesis
      by (simp add: run_calls_Cons most_recent_append)
  qed
qed

text \<open>
  C9. For a tracker with window size \<open>w\<close> (a capacity, so \<open>w \<ge> 0\<close>), after any sequence of
  \<^verbatim>\<open>track_processing\<close> and \<^verbatim>\<open>track_update\<close> calls each of the two sequences holds exactly the
  \<open>w\<close> most recent of its samples in push order (all of them while there are at most \<open>w\<close>),
  so never more than \<open>w\<close> entries; with \<open>w = 3\<close>, five pushes leave the last three.
\<close>

theorem tracker_windows:
  assumes "0 \<le> w"
  shows "processing_times (run_calls (new_tracker w t0) calls)
           = most_recent (nat w) (durations calls)
         \<and> update_times (run_calls (new_tracker w t0) calls)
           = most_recent (nat w) (intervals t0 calls)
         \<and> int (length (processing_times (run_calls (new_tracker w t0) calls))) \<le> w
         \<and> int (length (update_times (run_calls (new_tracker w t0) calls))) \<le> w"
proof -
  have r: "processing_times (run_calls (new_tracker w t0) calls)
             = most_recent (nat w) (durations calls)
           \<and> update_times (run_calls (new_tracker w t0) calls)
             = most_recent (nat w) (intervals t0 calls)"
    using run_calls_windows [of "new_tracker w t0" calls] assms
    by (simp add: new_tracker_def)
  have "length (most_recent (nat w) (durations calls)) \<le> nat w"
    and "length (most_recent (nat w) (intervals t0 calls)) \<le> nat w"
    by (rule length_most_recent)+
  with assms r show ?thesis by (simp add: le_nat_iff)
qed

theorem tracker_windows_witness:
  "(0::int) \<le> 3
   \<and> processing_times
       (run_calls (new_tracker 3 0)
          [Track_processing 1, Track_processing 2, Track_processing 3, Track_processing 4,
           Track_processing 5])
     = [3, 4, 5]
   \<and> update_times
       (run_calls (new_tracker 3 0)
          [Track_update 1, Track_processing 7, Track_update 3, Track_update 6, Track_update 10])
     = [2, 3, 4]"
proof -
  have h: "(0::int) \<le> 3" by simp
  from tracker_windows [OF h, of 0 "[Track_processing 1, Track_processing 2, Track_processing 3,
      Track_processing 4, Track_processing 5]"]
    tracker_windows [OF h, of 0 "[Track_update 1, Track_processing 7, Track_update 3,
      Track_update 6, Track_update 10]"]
  show ?thesis
    by (simp add: most_recent_def)
qed

section \<open>Properties of the impact model\<close>

text \<open>For \<open>x \<ge> 0\<close> the hyperbolic tangent dominates \<open>x\<close> times its own derivative.\<close>

lemma tanh_ge_arg_times_deriv:
  fixes x :: real
  assumes "0 \<le> x"
  shows "x * (1 - (tanh x)\<^sup>2) \<le> tanh x"
proof -
  define k where "k = (\<lambda>x::real. tanh x - x * (1 - (tanh x)\<^sup>2))"
  have d: "(k has_real_derivative (2 * y * tanh y * (1 - (tanh y)\<^sup>2))) (at y)" for y :: real
    unfolding k_def
    by (auto intro!: derivative_eq_intros simp: algebra_simps power2_eq_square)
  have "k 0 \<le> k x"
  proof (rule DERIV_nonneg_imp_nondecreasing [OF assms])
    fix y :: real
    assume y: "0 \<le> y" "y \<le> x"
    have "(tanh y)\<^sup>2 \<le> 1"
      using tanh_real_bounds [of y] by (simp add: abs_square_le_1 abs_if)
    then have "0 \<le> 2 * y * tanh y * (1 - (tanh y)\<^sup>2)"
      using y by simp
    with d show "\<exists>d. (k has_real_derivative d) (at y) \<and> 0 \<le> d" by blast
  qed
  then show ?thesis by (simp add: k_def)
qed

text \<open>Hence \<open>q * tanh (c / q)\<close> does not decrease in \<open>q > 0\<close>, for \<open>c \<ge> 0\<close>.\<close>

lemma mult_tanh_inverse_mono:
  fixes c q1 q2 :: real
  assumes c: "0 \<le> c" and q: "0 < q1" "q1 \<le> q2"
  shows "q1 * tanh (c / q1) \<le> q2 * tanh (c / q2)"
proof (rule DERIV_nonneg_imp_nondecreasing [OF q(2), where f = "\<lambda>q. q * tanh (c / q)"])
  fix q :: real
  assume "q1 \<le> q" "q \<le> q2"
  then have qpos: "0 < q" using q by simp
  have d: "((\<lambda>q. q * tanh (c / q)) has_real_derivative
            (tanh (c / q) - (c / q) * (1 - (tanh (c / q))\<^sup>2))) (at q)"
    using qpos by (auto intro!: derivative_eq_intros simp: field_simps power2_eq_square)
  have "0 \<le> c / q" using c qpos by simp
  from tanh_ge_arg_times_deriv [OF this]
  have "0 \<le> tanh (c / q) - (c / q) * (1 - (tanh (c / q))\<^sup>2)" by simp
  with d show "\<exists>d. ((\<lambda>q. q * tanh (c / q)) has_real_derivative d) (at q) \<and> 0 \<le> d" by blast
qed

text \<open>The same with the floor \<^verbatim>\<open>max(0.01, quantity)\<close> of the source, from quantity 0 on.\<close>

lemma mult_tanh_floor_mono:
  fixes c q1 q2 :: real
  assumes c: "0 \<le> c" and q: "0 \<le> q1" "q1 \<le> q2"
  shows "q1 * tanh (c / max 0.01 q1) \<le> q2 * tanh (c / max 0.01 q2)"
proof -
  have t: "0 \<le> tanh (c / 0.01)" using c by simp
  consider "q2 \<le> 0.01" | "0.01 \<le> q1" | "q1 < 0.01" "0.01 < q2" by linarith
  then show ?thesis
  proof cases
    case 1
    with q have "max 0.01 q1 = 0.01" "max 0.01 q2 = 0.01" by (simp_all add: max_def)
    with t q show ?thesis by (simp add: mult_right_mono)
  next
    case 2
    with q have m: "max 0.01 q1 = q1" "max 0.01 q2 = q2" by (simp_all add: max_def)
    from 2 have "0 < q1" by simp
    from mult_tanh_inverse_mono [OF c this q(2)] m show ?thesis by simp
  next
    case 3
    then have m: "max 0.01 q1 = 0.01" "max 0.01 q2 = q2" by (simp_all add: max_def)
    have "q1 * tanh (c / 0.01) \<le> 0.01 * tanh (c / 0.01)"
      using 3 t by (intro mult_right_mono) simp_all
    also have "\<dots> \<le> q2 * tanh (c / q2)"
      using mult_tanh_inverse_mono [OF c, of "0.01" q2] 3 by simp
    finally show ?thesis using m by simp
  qed
qed

text \<open>The value of \<^verbatim>\<open>calculate_impact\<close> under the default parameters, for a nonzero horizon.\<close>

lemma calculate_impact_default:
  assumes "time_horizon \<noteq> 0"
  shows "calculate_impact default_params sigma quantity price time_horizon
           = min (max (0.005 * quantity / time_horizon
                        + 0.01 * quantity
                            * tanh (sqrt ((0.1 * sigma * sigma) / (2 * 0.01))
                                      * (time_horizon / max 0.01 quantity))) 0) 0.1"
  using assms by (simp add: calculate_impact_def impact_body_def default_params_def Let_def)

lemma calculate_impact_range:
  "0 \<le> calculate_impact params sigma quantity price time_horizon
   \<and> calculate_impact params sigma quantity price time_horizon \<le> 0.1"
proof (cases "impact_body params sigma quantity price time_horizon")
  case (Inl e)
  then show ?thesis by (simp add: calculate_impact_def)
next
  case (Inr v)
  then obtain x where "v = min (max x 0) 0.1"
    by (auto simp: impact_body_def Let_def split: if_splits)
  with Inr show ?thesis by (simp add: calculate_impact_def min_def max_def)
qed

text \<open>
  In exact arithmetic on finite values, with the default parameters and a time horizon above
  0, the impact does not decrease in the quantity from 0 on. This is a property of the formula:
  the program computes in doubles, whose rounding can reverse the order of the results at two
  neighbouring quantities, and it is not a statement about the rounded results.
\<close>

lemma calculate_impact_monotone_exact:
  assumes "0 < time_horizon" and "0 \<le> q1" and "q1 \<le> q2"
  shows "calculate_impact default_params sigma q1 price time_horizon
           \<le> calculate_impact default_params sigma q2 price time_horizon"
proof -
  define kappa where "kappa = sqrt ((0.1 * sigma * sigma) / (2 * 0.01))"
  have k: "0 \<le> kappa"
    unfolding kappa_def by (intro real_sqrt_ge_zero) simp
  have c: "0 \<le> kappa * time_horizon"
    using k assms(1) by simp
  have e: "kappa * (time_horizon / max 0.01 x) = kappa * time_horizon / max 0.01 x" for x :: real
    by simp
  have perm: "q1 * tanh (kappa * (time_horizon / max 0.01 q1))
                \<le> q2 * tanh (kappa * (time_horizon / max 0.01 q2))"
    unfolding e by (rule mult_tanh_floor_mono [OF c assms(2,3)])
  have temp: "0.005 * q1 / time_horizon \<le> 0.005 * q2 / time_horizon"
    using assms(1,3) by (simp add: divide_right_mono)
  have "0.005 * q1 / time_horizon + 0.01 * q1 * tanh (kappa * (time_horizon / max 0.01 q1))
          \<le> 0.005 * q2 / time_horizon + 0.01 * q2 * tanh (kappa * (time_horizon / max 0.01 q2))"
    using perm temp by simp
  then have main: "min (max (0.005 * q1 / time_horizon
                        + 0.01 * q1 * tanh (kappa * (time_horizon / max 0.01 q1))) 0) 0.1
               \<le> min (max (0.005 * q2 / time_horizon
                        + 0.01 * q2 * tanh (kappa * (time_horizon / max 0.01 q2))) 0) (0.1::real)"
    by (simp add: min_def max_def)
  have h: "time_horizon \<noteq> 0" using assms(1) by simp
  from main show ?thesis
    unfolding kappa_def calculate_impact_default [OF h] by this
qed









end
